theory Spec2Isabelle
  imports Complex_Main
begin

section \<open>Values of a pandas column\<close>

text \<open>
  A pandas column of the program holds IEEE doubles. The model keeps the special values
  the program depends on (the not-a-number sentinel and the two infinities that numpy's
  division by zero produces) and takes every finite value as an exact real: rounding
  and the sign of zero are not modelled.
\<close>

datatype fl = NaN | PInf | NInf | Fin real

fun fl_uminus :: "fl \<Rightarrow> fl" where
  "fl_uminus NaN = NaN"
| "fl_uminus PInf = NInf"
| "fl_uminus NInf = PInf"
| "fl_uminus (Fin x) = Fin (- x)"

fun fl_add :: "fl \<Rightarrow> fl \<Rightarrow> fl" where
  "fl_add (Fin x) (Fin y) = Fin (x + y)"
| "fl_add NaN b = NaN"
| "fl_add a NaN = NaN"
| "fl_add PInf NInf = NaN"
| "fl_add NInf PInf = NaN"
| "fl_add PInf b = PInf"
| "fl_add a PInf = PInf"
| "fl_add NInf b = NInf"
| "fl_add a NInf = NInf"

definition fl_sub :: "fl \<Rightarrow> fl \<Rightarrow> fl" where
  "fl_sub a b = fl_add a (fl_uminus b)"

fun fl_mult :: "fl \<Rightarrow> fl \<Rightarrow> fl" where
  "fl_mult (Fin x) (Fin y) = Fin (x * y)"
| "fl_mult NaN b = NaN"
| "fl_mult a NaN = NaN"
| "fl_mult PInf (Fin y) = (if y = 0 then NaN else if 0 < y then PInf else NInf)"
| "fl_mult NInf (Fin y) = (if y = 0 then NaN else if 0 < y then NInf else PInf)"
| "fl_mult (Fin x) PInf = (if x = 0 then NaN else if 0 < x then PInf else NInf)"
| "fl_mult (Fin x) NInf = (if x = 0 then NaN else if 0 < x then NInf else PInf)"
| "fl_mult PInf PInf = PInf"
| "fl_mult NInf NInf = PInf"
| "fl_mult PInf NInf = NInf"
| "fl_mult NInf PInf = NInf"

text \<open>
  numpy's float division: a finite non-zero value over zero is an infinity, zero over
  zero is NaN, a finite value over an infinity is zero.
\<close>

fun fl_div :: "fl \<Rightarrow> fl \<Rightarrow> fl" where
  "fl_div (Fin x) (Fin y) =
     (if y = 0 then (if x = 0 then NaN else if 0 < x then PInf else NInf)
      else Fin (x / y))"
| "fl_div NaN b = NaN"
| "fl_div a NaN = NaN"
| "fl_div (Fin x) PInf = Fin 0"
| "fl_div (Fin x) NInf = Fin 0"
| "fl_div PInf (Fin y) = (if 0 \<le> y then PInf else NInf)"
| "fl_div NInf (Fin y) = (if 0 \<le> y then NInf else PInf)"
| "fl_div PInf PInf = NaN"
| "fl_div PInf NInf = NaN"
| "fl_div NInf PInf = NaN"
| "fl_div NInf NInf = NaN"

text \<open>The comparison \<open>a < b\<close> of two doubles: false as soon as one side is NaN.\<close>

fun fl_less :: "fl \<Rightarrow> fl \<Rightarrow> bool" where
  "fl_less (Fin x) (Fin y) = (x < y)"
| "fl_less NaN b = False"
| "fl_less a NaN = False"
| "fl_less NInf NInf = False"
| "fl_less NInf b = True"
| "fl_less PInf b = False"
| "fl_less (Fin x) PInf = True"
| "fl_less (Fin x) NInf = False"

definition is_defined :: "fl \<Rightarrow> bool" where
  "is_defined v = (v \<noteq> NaN)"

section \<open>Errors, bars and frames\<close>

datatype py_error = KeyError string | IndexError | ValueError

definition bind :: "'e + 'a \<Rightarrow> ('a \<Rightarrow> 'e + 'b) \<Rightarrow> 'e + 'b" where
  "bind m f = (case m of Inl e \<Rightarrow> Inl e | Inr v \<Rightarrow> f v)"

text \<open>
  One row of the frame that \<open>DataFetcher.fetch_ohlcv\<close> builds: the index is the
  timestamp, the five columns are finite prices and a volume.
\<close>

record bar =
  timestamp :: int
  "open" :: real
  high :: real
  low :: real
  close :: real
  volume :: real

text \<open>
  The DataFrame: the fetched rows and the columns the indicators have added since, by
  name. Each indicator returns the frame with its columns set. A frame without rows
  (\<open>bars = []\<close>) also stands for the column-less \<open>pd.DataFrame()\<close> that the
  fetcher returns when the exchange call raises: both are \<open>data.empty\<close>.
\<close>

record frame =
  bars :: "bar list"
  cols :: "string \<rightharpoonup> fl list"

definition new_frame :: "bar list \<Rightarrow> frame" where
  "new_frame bs = \<lparr>bars = bs, cols = Map.empty\<rparr>"

definition empty_frame :: "frame \<Rightarrow> bool" where
  "empty_frame data = (bars data = [])"

definition setitem :: "frame \<Rightarrow> string \<Rightarrow> fl list \<Rightarrow> frame" where
  "setitem data k c = data\<lparr>cols := (cols data)(k \<mapsto> c)\<rparr>"

text \<open>\<open>data[k]\<close>: a fetched column, an added column, or KeyError.\<close>

definition getitem :: "frame \<Rightarrow> string \<Rightarrow> py_error + fl list" where
  "getitem data k =
     (if k = ''open'' then Inr (map (\<lambda>b. Fin (open b)) (bars data))
      else if k = ''high'' then Inr (map (\<lambda>b. Fin (high b)) (bars data))
      else if k = ''low'' then Inr (map (\<lambda>b. Fin (low b)) (bars data))
      else if k = ''close'' then Inr (map (\<lambda>b. Fin (close b)) (bars data))
      else if k = ''volume'' then Inr (map (\<lambda>b. Fin (volume b)) (bars data))
      else (case cols data k of None \<Rightarrow> Inl (KeyError k) | Some c \<Rightarrow> Inr c))"

text \<open>\<open>series.iloc[-1]\<close>: the last value, IndexError on an empty series.\<close>

definition iloc_last :: "fl list \<Rightarrow> py_error + fl" where
  "iloc_last xs = (if xs = [] then Inl IndexError else Inr (last xs))"

definition latest :: "frame \<Rightarrow> string \<Rightarrow> py_error + fl" where
  "latest data k = bind (getitem data k) iloc_last"

section \<open>Formatting a value with two decimals\<close>

text \<open>
  The format \<open>{x:.2f}\<close> of an f-string: the sign, the integer digits, a point and
  two decimals, the value rounded to the nearest hundredth with ties to even.
\<close>

definition round_half_even :: "real \<Rightarrow> int" where
  "round_half_even y =
     (let f = \<lfloor>y\<rfloor>; d = y - of_int f
      in if d < 1 / 2 then f else if 1 / 2 < d then f + 1
         else if even f then f else f + 1)"

definition digit_char :: "nat \<Rightarrow> char" where
  "digit_char n = ''0123456789'' ! n"

fun dec_digits :: "nat \<Rightarrow> string" where
  "dec_digits n =
     (if n < 10 then [digit_char n] else dec_digits (n div 10) @ [digit_char (n mod 10)])"

declare dec_digits.simps [simp del]

definition format_2f :: "fl \<Rightarrow> string" where
  "format_2f v =
     (case v of
        NaN \<Rightarrow> ''nan''
      | PInf \<Rightarrow> ''inf''
      | NInf \<Rightarrow> ''-inf''
      | Fin x \<Rightarrow>
          (let n = nat (round_half_even (\<bar>x\<bar> * 100))
           in (if x < 0 then ''-'' else '''') @ dec_digits (n div 100) @ ''.''
              @ [digit_char (n mod 100 div 10), digit_char (n mod 10)]))"

section \<open>Configuration (config/settings.py)\<close>

record ta_params =
  rsi_period :: nat
  rsi_overbought :: real
  rsi_oversold :: real
  macd_fast :: nat
  macd_slow :: nat
  macd_signal :: nat
  bb_period :: nat
  bb_std :: real

definition TA_PARAMS :: ta_params where
  "TA_PARAMS = \<lparr>rsi_period = 14, rsi_overbought = 70, rsi_oversold = 30,
     macd_fast = 12, macd_slow = 26, macd_signal = 9, bb_period = 20, bb_std = 2\<rparr>"

record trading_config =
  default_timeframe :: string
  default_limit :: nat

definition TRADING_CONFIG :: trading_config where
  "TRADING_CONFIG = \<lparr>default_timeframe = ''1d'', default_limit = 365\<rparr>"

section \<open>The signal engine (main.py, generate\_trading\_signals)\<close>

datatype action = BUY | SELL

record signals =
  action :: "action option"
  confidence :: real
  reasons :: "string list"

text \<open>The three rule groups, each one the \<open>if\<close>/\<open>elif\<close> of the source on the dictionary.\<close>

definition rsi_analysis :: "fl \<Rightarrow> signals \<Rightarrow> signals" where
  "rsi_analysis latest_rsi s =
     (if fl_less latest_rsi (Fin (rsi_oversold TA_PARAMS)) then
        s\<lparr>reasons := reasons s @ [''RSI oversold ('' @ format_2f latest_rsi @ '')''],
          confidence := confidence s + 3 / 10,
          action := Some BUY\<rparr>
      else if fl_less (Fin (rsi_overbought TA_PARAMS)) latest_rsi then
        s\<lparr>reasons := reasons s @ [''RSI overbought ('' @ format_2f latest_rsi @ '')''],
          confidence := confidence s + 3 / 10,
          action := Some SELL\<rparr>
      else s)"

definition macd_analysis :: "fl \<Rightarrow> fl \<Rightarrow> signals \<Rightarrow> signals" where
  "macd_analysis macd signal_line s =
     (if fl_less signal_line macd then
        s\<lparr>reasons := reasons s @ [''MACD crossed above signal line''],
          confidence := confidence s + 3 / 10,
          action := Some BUY\<rparr>
      else if fl_less macd signal_line then
        s\<lparr>reasons := reasons s @ [''MACD crossed below signal line''],
          confidence := confidence s + 3 / 10,
          action := Some SELL\<rparr>
      else s)"

text \<open>
  The Bollinger group reads \<open>BB_upper\<close> only when the price is not below
  \<open>BB_lower\<close>, as the \<open>elif\<close> does.
\<close>

definition bollinger_analysis :: "frame \<Rightarrow> signals \<Rightarrow> py_error + signals" where
  "bollinger_analysis data s =
     bind (latest data ''close'') (\<lambda>latest_close.
     bind (latest data ''BB_lower'') (\<lambda>bb_lower.
       if fl_less latest_close bb_lower then
         Inr (s\<lparr>reasons := reasons s @ [''Price below lower Bollinger Band''],
                confidence := confidence s + 2 / 10,
                action := Some BUY\<rparr>)
       else
         bind (latest data ''BB_upper'') (\<lambda>bb_upper.
           if fl_less bb_upper latest_close then
             Inr (s\<lparr>reasons := reasons s @ [''Price above upper Bollinger Band''],
                    confidence := confidence s + 2 / 10,
                    action := Some SELL\<rparr>)
           else Inr s)))"

definition generate_trading_signals :: "frame \<Rightarrow> py_error + signals" where
  "generate_trading_signals data =
     bind (latest data ''RSI'') (\<lambda>latest_rsi.
     bind (latest data ''MACD'') (\<lambda>macd.
     bind (latest data ''Signal_Line'') (\<lambda>signal_line.
       bollinger_analysis data
         (macd_analysis macd signal_line
           (rsi_analysis latest_rsi \<lparr>action = None, confidence = 0, reasons = []\<rparr>)))))"


section \<open>Rolling windows, differences and exponential smoothing (pandas)\<close>

text \<open>
  \<open>series.rolling(window=w)\<close> with the default \<open>min_periods = w\<close>: the value at
  position \<open>t\<close> is computed from the \<open>w\<close> entries ending at \<open>t\<close>, and is NaN while
  fewer than \<open>w\<close> entries exist. An empty window (\<open>w = 0\<close>) has no observation and
  gives NaN.
\<close>

definition window_at :: "nat \<Rightarrow> nat \<Rightarrow> 'a list \<Rightarrow> 'a list" where
  "window_at w t xs = take w (drop (Suc t - w) xs)"

definition rolling :: "nat \<Rightarrow> ('a list \<Rightarrow> fl) \<Rightarrow> 'a list \<Rightarrow> fl list" where
  "rolling w f xs =
     map (\<lambda>t. if w = 0 \<or> Suc t < w then NaN else f (window_at w t xs)) [0..<length xs]"

definition fl_sum :: "fl list \<Rightarrow> fl" where
  "fl_sum vs = foldr fl_add vs (Fin 0)"

text \<open>\<open>.mean()\<close> of a window: the sum over the number of observations.\<close>

definition mean_fl :: "fl list \<Rightarrow> fl" where
  "mean_fl vs = fl_div (fl_sum vs) (Fin (real (length vs)))"

text \<open>\<open>.std()\<close> of a window: the sample standard deviation (\<open>ddof = 1\<close>), NaN on a
  single observation.\<close>

definition std_sample :: "real list \<Rightarrow> fl" where
  "std_sample ws =
     (let n = length ws; mu = sum_list ws / real n
      in if n \<le> 1 then NaN
         else Fin (sqrt (sum_list (map (\<lambda>x. (x - mu)\<^sup>2) ws) / real (n - 1))))"

definition max_window :: "real list \<Rightarrow> fl" where
  "max_window ws = (if ws = [] then NaN else Fin (Max (set ws)))"

definition min_window :: "real list \<Rightarrow> fl" where
  "min_window ws = (if ws = [] then NaN else Fin (Min (set ws)))"

text \<open>\<open>series.diff(n)\<close>: the value minus the value \<open>n\<close> rows before, NaN on the first
  \<open>n\<close> rows.\<close>

definition diff :: "nat \<Rightarrow> real list \<Rightarrow> fl list" where
  "diff n xs = map (\<lambda>t. if t < n then NaN else Fin (xs ! t - xs ! (t - n))) [0..<length xs]"

text \<open>\<open>series.where(cond, other)\<close>: keeps the entries that satisfy the condition and
  replaces the others.\<close>

definition where_fl :: "(fl \<Rightarrow> bool) \<Rightarrow> fl \<Rightarrow> fl list \<Rightarrow> fl list" where
  "where_fl cond other vs = map (\<lambda>v. if cond v then v else other) vs"

text \<open>
  \<open>series.ewm(span=n, adjust=False).mean()\<close>: seeded with the first value, then
  \<open>y\<^sub>t = (1 - \<alpha>) y\<^sub>t\<^sub>-\<^sub>1 + \<alpha> x\<^sub>t\<close> with \<open>\<alpha> = 2 / (n + 1)\<close>; pandas rejects a span
  below 1 with a ValueError.
\<close>

fun ewm_from :: "real \<Rightarrow> real \<Rightarrow> real list \<Rightarrow> real list" where
  "ewm_from \<alpha> prev [] = []"
| "ewm_from \<alpha> prev (x # xs) =
     (let y = (1 - \<alpha>) * prev + \<alpha> * x in y # ewm_from \<alpha> y xs)"

definition ewm_mean :: "nat \<Rightarrow> real list \<Rightarrow> py_error + real list" where
  "ewm_mean n xs =
     (if n < 1 then Inl ValueError
      else Inr (case xs of [] \<Rightarrow> [] | x # rest \<Rightarrow> x # ewm_from (2 / (real n + 1)) x rest))"

section \<open>The indicators of TechnicalAnalyzer (analysis/technical\_analysis.py)\<close>

definition rsi_gain :: "frame \<Rightarrow> nat \<Rightarrow> fl list" where
  "rsi_gain data period =
     (let delta = diff 1 (map close (bars data))
      in rolling period mean_fl (where_fl (\<lambda>d. fl_less (Fin 0) d) (Fin 0) delta))"

definition rsi_loss :: "frame \<Rightarrow> nat \<Rightarrow> fl list" where
  "rsi_loss data period =
     (let delta = diff 1 (map close (bars data))
      in rolling period mean_fl
           (map fl_uminus (where_fl (\<lambda>d. fl_less d (Fin 0)) (Fin 0) delta)))"

definition calculate_rsi :: "frame \<Rightarrow> nat \<Rightarrow> frame" where
  "calculate_rsi data period =
     (let gain = rsi_gain data period;
          loss = rsi_loss data period;
          rs = map2 fl_div gain loss
      in setitem data ''RSI''
           (map (\<lambda>r. fl_sub (Fin 100) (fl_div (Fin 100) (fl_add (Fin 1) r))) rs))"

definition calculate_macd :: "frame \<Rightarrow> nat \<Rightarrow> nat \<Rightarrow> nat \<Rightarrow> py_error + frame" where
  "calculate_macd data short_period long_period signal_period =
     bind (ewm_mean short_period (map close (bars data))) (\<lambda>exp1.
     bind (ewm_mean long_period (map close (bars data))) (\<lambda>exp2.
       let macd = map2 (\<lambda>a b. a - b) exp1 exp2;
           d1 = setitem data ''MACD'' (map Fin macd)
       in bind (ewm_mean signal_period macd) (\<lambda>signal_line.
            Inr (setitem d1 ''Signal_Line'' (map Fin signal_line)))))"

definition calculate_bollinger_bands :: "frame \<Rightarrow> nat \<Rightarrow> real \<Rightarrow> frame" where
  "calculate_bollinger_bands data period std_dev =
     (let bb_middle = rolling period mean_fl (map (\<lambda>b. Fin (close b)) (bars data));
          d1 = setitem data ''BB_middle'' bb_middle;
          bb_std = rolling period std_sample (map close (bars data));
          offset = map (\<lambda>s. fl_mult s (Fin std_dev)) bb_std;
          d2 = setitem d1 ''BB_upper'' (map2 fl_add bb_middle offset)
      in setitem d2 ''BB_lower'' (map2 fl_sub bb_middle offset))"

definition calculate_fibonacci_levels :: "frame \<Rightarrow> nat \<Rightarrow> frame" where
  "calculate_fibonacci_levels data period =
     (let high_max = rolling period max_window (map high (bars data));
          low_min = rolling period min_window (map low (bars data));
          diff_hl = map2 fl_sub high_max low_min;
          level = (\<lambda>q. map2 fl_add low_min (map (\<lambda>d. fl_mult d (Fin q)) diff_hl));
          d1 = setitem data ''Fib_0'' low_min;
          d2 = setitem d1 ''Fib_236'' (level (236 / 1000));
          d3 = setitem d2 ''Fib_382'' (level (382 / 1000));
          d4 = setitem d3 ''Fib_500'' (level (500 / 1000));
          d5 = setitem d4 ''Fib_618'' (level (618 / 1000))
      in setitem d5 ''Fib_100'' high_max)"

definition calculate_all_indicators :: "frame \<Rightarrow> py_error + frame" where
  "calculate_all_indicators data =
     bind (calculate_macd (calculate_rsi data 14) 12 26 9) (\<lambda>d2.
       Inr (calculate_fibonacci_levels (calculate_bollinger_bands d2 20 2) 14))"

section \<open>The additional indicators (indicators/custom\_indicators.py)\<close>

definition calculate_support_resistance :: "frame \<Rightarrow> nat \<Rightarrow> frame" where
  "calculate_support_resistance data window =
     (let d1 = setitem data ''Support'' (rolling window min_window (map low (bars data)))
      in setitem d1 ''Resistance'' (rolling window max_window (map high (bars data))))"

definition calculate_momentum :: "frame \<Rightarrow> nat \<Rightarrow> frame" where
  "calculate_momentum data period =
     setitem data ''Momentum'' (diff period (map close (bars data)))"

definition pivot :: "bar \<Rightarrow> real" where
  "pivot b = (high b + low b + close b) / 3"

definition calculate_pivot_points :: "frame \<Rightarrow> frame" where
  "calculate_pivot_points data =
     (let d1 = setitem data ''PP'' (map (\<lambda>b. Fin (pivot b)) (bars data));
          d2 = setitem d1 ''R1'' (map (\<lambda>b. Fin (2 * pivot b - low b)) (bars data));
          d3 = setitem d2 ''S1'' (map (\<lambda>b. Fin (2 * pivot b - high b)) (bars data));
          d4 = setitem d3 ''R2'' (map (\<lambda>b. Fin (pivot b + (high b - low b))) (bars data))
      in setitem d4 ''S2'' (map (\<lambda>b. Fin (pivot b - (high b - low b))) (bars data)))"

section \<open>The analysis pipeline (main.py, fetch\_and\_analyze\_data)\<close>

text \<open>
  The fetcher is the exchange's: it is a parameter, giving the rows for a symbol, a
  timeframe and a limit. The result is the list of messages shown with \<open>st.error\<close>
  and the outcome: an exception, \<open>None\<close>, or the analysed frame.
\<close>

definition fetch_and_analyze_data ::
  "(string \<Rightarrow> string \<Rightarrow> nat \<Rightarrow> bar list) \<Rightarrow> string \<Rightarrow> string list \<times> (py_error + frame option)"
where
  "fetch_and_analyze_data fetch_ohlcv symbol =
     (let data = new_frame (fetch_ohlcv symbol (default_timeframe TRADING_CONFIG)
                              (default_limit TRADING_CONFIG))
      in if empty_frame data then ([''Failed to fetch data for '' @ symbol], Inr None)
         else ([],
               bind (calculate_all_indicators data) (\<lambda>analyzed_data.
                 Inr (Some (calculate_pivot_points
                       (calculate_momentum
                         (calculate_support_resistance analyzed_data 20) 14))))))"

section \<open>Notions used to state the properties\<close>

text \<open>The value of a column at a row, when the column exists and has that row.\<close>

definition cell :: "frame \<Rightarrow> string \<Rightarrow> nat \<Rightarrow> fl option" where
  "cell data k t =
     (case getitem data k of
        Inl e \<Rightarrow> None
      | Inr c \<Rightarrow> if t < length c then Some (c ! t) else None)"

text \<open>\<open>a \<le> b\<close> on doubles: false as soon as one side is NaN.\<close>

definition fl_le :: "fl \<Rightarrow> fl \<Rightarrow> bool" where
  "fl_le a b = (fl_less a b \<or> (a = b \<and> a \<noteq> NaN))"

text \<open>What each rule group of the signal engine says about the latest values.\<close>

definition rsi_vote :: "fl \<Rightarrow> action option" where
  "rsi_vote r =
     (if fl_less r (Fin 30) then Some BUY else if fl_less (Fin 70) r then Some SELL else None)"

definition macd_vote :: "fl \<Rightarrow> fl \<Rightarrow> action option" where
  "macd_vote m g =
     (if fl_less g m then Some BUY else if fl_less m g then Some SELL else None)"

definition bb_vote :: "fl \<Rightarrow> fl \<Rightarrow> fl \<Rightarrow> action option" where
  "bb_vote c l u =
     (if fl_less c l then Some BUY else if fl_less u c then Some SELL else None)"

definition weight :: "real \<Rightarrow> action option \<Rightarrow> real" where
  "weight w v = (if v = None then 0 else w)"

text \<open>The action of the last rule that fired, in a list of rule outcomes.\<close>

definition last_vote :: "action option list \<Rightarrow> action option" where
  "last_vote vs = fold (\<lambda>v acc. case v of None \<Rightarrow> acc | Some a \<Rightarrow> Some a) vs None"

definition fired_count :: "action option list \<Rightarrow> nat" where
  "fired_count vs = length (filter (\<lambda>v. v \<noteq> None) vs)"

text \<open>The same outcomes read off a frame; a rule whose columns cannot be read has not
  fired.\<close>

definition rsi_vote_of :: "frame \<Rightarrow> action option" where
  "rsi_vote_of data = (case latest data ''RSI'' of Inl e \<Rightarrow> None | Inr r \<Rightarrow> rsi_vote r)"

definition macd_vote_of :: "frame \<Rightarrow> action option" where
  "macd_vote_of data =
     (case latest data ''MACD'' of Inl e \<Rightarrow> None
      | Inr m \<Rightarrow> (case latest data ''Signal_Line'' of Inl e \<Rightarrow> None | Inr g \<Rightarrow> macd_vote m g))"

definition bb_vote_of :: "frame \<Rightarrow> action option" where
  "bb_vote_of data =
     (case latest data ''close'' of Inl e \<Rightarrow> None
      | Inr c \<Rightarrow>
         (case latest data ''BB_lower'' of Inl e \<Rightarrow> None
          | Inr l \<Rightarrow>
             if fl_less c l then Some BUY
             else (case latest data ''BB_upper'' of Inl e \<Rightarrow> None | Inr u \<Rightarrow> bb_vote c l u)))"

definition init_signals :: signals where
  "init_signals = \<lparr>action = None, confidence = 0, reasons = []\<rparr>"

text \<open>A column at a row: defined (a value other than NaN), undefined (NaN), and the
  comparisons of two columns at a row.\<close>

definition defined_at :: "frame \<Rightarrow> string \<Rightarrow> nat \<Rightarrow> bool" where
  "defined_at data k t = (case cell data k t of None \<Rightarrow> False | Some v \<Rightarrow> is_defined v)"

definition undefined_at :: "frame \<Rightarrow> string \<Rightarrow> nat \<Rightarrow> bool" where
  "undefined_at data k t = (cell data k t = Some NaN)"


definition cell_le :: "frame \<Rightarrow> string \<Rightarrow> string \<Rightarrow> nat \<Rightarrow> bool" where
  "cell_le data k1 k2 t =
     (case cell data k1 t of None \<Rightarrow> False
      | Some a \<Rightarrow> (case cell data k2 t of None \<Rightarrow> False | Some b \<Rightarrow> fl_le a b))"


text \<open>The expression that \<open>calculate_rsi\<close> applies to the rolling gain and loss.\<close>

definition rsi_of :: "fl \<Rightarrow> fl \<Rightarrow> fl" where
  "rsi_of g l = fl_sub (Fin 100) (fl_div (Fin 100) (fl_add (Fin 1) (fl_div g l)))"

text \<open>A one-row frame with given latest indicator values, for the examples.\<close>

definition tail_frame :: "fl \<Rightarrow> fl \<Rightarrow> fl \<Rightarrow> real \<Rightarrow> fl \<Rightarrow> fl \<Rightarrow> frame" where
  "tail_frame r m g c l u =
     \<lparr>bars = [\<lparr>timestamp = 0, open = c, high = c, low = c, close = c, volume = 1\<rparr>],
      cols = [''RSI'' \<mapsto> [r], ''MACD'' \<mapsto> [m], ''Signal_Line'' \<mapsto> [g],
              ''BB_lower'' \<mapsto> [l], ''BB_upper'' \<mapsto> [u]]\<rparr>"

text \<open>A frame of rows given as (high, low, close), for the examples.\<close>

definition hlc_frame :: "(real \<times> real \<times> real) list \<Rightarrow> frame" where
  "hlc_frame rows =
     new_frame (map (\<lambda>(h, l, c). \<lparr>timestamp = 0, open = c, high = h, low = l,
                                  close = c, volume = 1\<rparr>) rows)"


section \<open>Properties of the signal engine\<close>

lemma rsi_analysis_action:
  "action (rsi_analysis r s) = (case rsi_vote r of None \<Rightarrow> action s | Some a \<Rightarrow> Some a)"
  by (simp add: rsi_analysis_def rsi_vote_def TA_PARAMS_def)

lemma rsi_analysis_confidence:
  "confidence (rsi_analysis r s) = confidence s + weight (3 / 10) (rsi_vote r)"
  by (simp add: rsi_analysis_def rsi_vote_def weight_def TA_PARAMS_def)

lemma rsi_analysis_length:
  "length (reasons (rsi_analysis r s)) = length (reasons s) + fired_count [rsi_vote r]"
  by (simp add: rsi_analysis_def rsi_vote_def fired_count_def TA_PARAMS_def)

lemma macd_analysis_action:
  "action (macd_analysis m g s) = (case macd_vote m g of None \<Rightarrow> action s | Some a \<Rightarrow> Some a)"
  by (simp add: macd_analysis_def macd_vote_def)

lemma macd_analysis_confidence:
  "confidence (macd_analysis m g s) = confidence s + weight (3 / 10) (macd_vote m g)"
  by (simp add: macd_analysis_def macd_vote_def weight_def)

lemma macd_analysis_length:
  "length (reasons (macd_analysis m g s)) = length (reasons s) + fired_count [macd_vote m g]"
  by (simp add: macd_analysis_def macd_vote_def fired_count_def)

lemma bollinger_analysis_Inr:
  assumes "bollinger_analysis data s = Inr s'"
  shows "action s' = (case bb_vote_of data of None \<Rightarrow> action s | Some a \<Rightarrow> Some a)
       \<and> confidence s' = confidence s + weight (2 / 10) (bb_vote_of data)
       \<and> length (reasons s') = length (reasons s) + fired_count [bb_vote_of data]"
  using assms
  by (auto simp: bollinger_analysis_def bb_vote_of_def bb_vote_def bind_def weight_def
      fired_count_def split: sum.splits if_splits)

lemma bollinger_analysis_total:
  assumes "latest data ''close'' = Inr c" "latest data ''BB_lower'' = Inr l"
    "latest data ''BB_upper'' = Inr u"
  shows "\<exists>s'. bollinger_analysis data s = Inr s'"
  using assms by (simp add: bollinger_analysis_def bind_def)

lemma generate_trading_signals_Inr:
  assumes "generate_trading_signals data = Inr s"
  shows "\<exists>r m g. latest data ''RSI'' = Inr r \<and> latest data ''MACD'' = Inr m
           \<and> latest data ''Signal_Line'' = Inr g
           \<and> bollinger_analysis data (macd_analysis m g (rsi_analysis r init_signals)) = Inr s"
  using assms
  by (auto simp: generate_trading_signals_def bind_def init_signals_def split: sum.splits)

lemma latest_tail_frame:
  "latest (tail_frame r m g c l u) ''RSI'' = Inr r"
  "latest (tail_frame r m g c l u) ''MACD'' = Inr m"
  "latest (tail_frame r m g c l u) ''Signal_Line'' = Inr g"
  "latest (tail_frame r m g c l u) ''close'' = Inr (Fin c)"
  "latest (tail_frame r m g c l u) ''BB_lower'' = Inr l"
  "latest (tail_frame r m g c l u) ''BB_upper'' = Inr u"
  by (simp_all add: tail_frame_def latest_def getitem_def bind_def iloc_last_def)

lemma format_2f_25: "format_2f (Fin 25) = ''25.00''"
  by (simp add: format_2f_def round_half_even_def dec_digits.simps digit_char_def Let_def)

text \<open>
  Claim C10. Whenever the signal engine returns a signal, the action is \<open>None\<close>
  exactly when the confidence is 0, which is exactly when there is no reason; the
  confidence is the sum of the weights (0.3, 0.3, 0.2) of the rules that fired and the
  number of reasons is the number of rules that fired.
\<close>

theorem signal_consistency:
  assumes "generate_trading_signals data = Inr s"
  shows "(action s = None \<longleftrightarrow> confidence s = 0)
       \<and> (confidence s = 0 \<longleftrightarrow> reasons s = [])
       \<and> confidence s = weight (3 / 10) (rsi_vote_of data) + weight (3 / 10) (macd_vote_of data)
                         + weight (2 / 10) (bb_vote_of data)
       \<and> length (reasons s) = fired_count [rsi_vote_of data, macd_vote_of data, bb_vote_of data]"
proof -
  obtain r m g where r: "latest data ''RSI'' = Inr r" and m: "latest data ''MACD'' = Inr m"
    and g: "latest data ''Signal_Line'' = Inr g"
    and b: "bollinger_analysis data (macd_analysis m g (rsi_analysis r init_signals)) = Inr s"
    using generate_trading_signals_Inr [OF assms] by blast
  have rv: "rsi_vote_of data = rsi_vote r" by (simp add: rsi_vote_of_def r)
  have mv: "macd_vote_of data = macd_vote m g" by (simp add: macd_vote_of_def m g)
  note B = bollinger_analysis_Inr [OF b]
  have act: "action s = (case bb_vote_of data of None \<Rightarrow>
       (case macd_vote m g of None \<Rightarrow> rsi_vote r | Some a \<Rightarrow> Some a) | Some a \<Rightarrow> Some a)"
    using B by (simp add: macd_analysis_action rsi_analysis_action init_signals_def
        split: option.splits)
  have conf: "confidence s = weight (3 / 10) (rsi_vote r) + weight (3 / 10) (macd_vote m g)
      + weight (2 / 10) (bb_vote_of data)"
    using B by (simp add: macd_analysis_confidence rsi_analysis_confidence init_signals_def)
  have len: "length (reasons s) = fired_count [rsi_vote r, macd_vote m g, bb_vote_of data]"
    using B by (simp add: macd_analysis_length rsi_analysis_length init_signals_def
        fired_count_def)
  have 1: "action s = None \<longleftrightarrow> confidence s = 0"
    unfolding act conf by (auto simp: weight_def split: option.splits)
  have "confidence s = 0 \<longleftrightarrow> length (reasons s) = 0"
    unfolding len conf by (auto simp: weight_def fired_count_def)
  then have 2: "confidence s = 0 \<longleftrightarrow> reasons s = []"
    by simp
  from conf have 3: "confidence s = weight (3 / 10) (rsi_vote_of data)
      + weight (3 / 10) (macd_vote_of data) + weight (2 / 10) (bb_vote_of data)"
    by (simp only: rv mv)
  from len have 4: "length (reasons s)
      = fired_count [rsi_vote_of data, macd_vote_of data, bb_vote_of data]"
    by (simp only: rv mv)
  from 1 2 3 4 show ?thesis by blast
qed

theorem signal_consistency_witness:
  "generate_trading_signals (tail_frame (Fin 25) (Fin 1) (Fin 1) 95 (Fin 80) (Fin 94))
     = Inr \<lparr>action = Some SELL, confidence = 5 / 10,
            reasons = [''RSI oversold (25.00)'', ''Price above upper Bollinger Band'']\<rparr>
   \<and> weight (3 / 10) (rsi_vote_of (tail_frame (Fin 25) (Fin 1) (Fin 1) 95 (Fin 80) (Fin 94)))
       + weight (3 / 10) (macd_vote_of (tail_frame (Fin 25) (Fin 1) (Fin 1) 95 (Fin 80) (Fin 94)))
       + weight (2 / 10) (bb_vote_of (tail_frame (Fin 25) (Fin 1) (Fin 1) 95 (Fin 80) (Fin 94)))
       = 5 / 10
   \<and> fired_count [rsi_vote_of (tail_frame (Fin 25) (Fin 1) (Fin 1) 95 (Fin 80) (Fin 94)),
        macd_vote_of (tail_frame (Fin 25) (Fin 1) (Fin 1) 95 (Fin 80) (Fin 94)),
        bb_vote_of (tail_frame (Fin 25) (Fin 1) (Fin 1) 95 (Fin 80) (Fin 94))] = 2"
proof -
  have g: "generate_trading_signals (tail_frame (Fin 25) (Fin 1) (Fin 1) 95 (Fin 80) (Fin 94))
     = Inr \<lparr>action = Some SELL, confidence = 5 / 10,
            reasons = [''RSI oversold (25.00)'', ''Price above upper Bollinger Band'']\<rparr>"
    by (simp add: latest_tail_frame generate_trading_signals_def bollinger_analysis_def
      macd_analysis_def rsi_analysis_def bind_def TA_PARAMS_def format_2f_25)
  from signal_consistency [OF g] g show ?thesis by simp
qed

lemma bb_vote_of_eq:
  assumes "latest data ''close'' = Inr c" "latest data ''BB_lower'' = Inr l"
    "latest data ''BB_upper'' = Inr u"
  shows "bb_vote_of data = bb_vote c l u"
  using assms by (simp add: bb_vote_of_def bb_vote_def)

lemma last_vote3:
  "last_vote [a, b, c] =
     (case c of None \<Rightarrow> (case b of None \<Rightarrow> a | Some y \<Rightarrow> Some y) | Some z \<Rightarrow> Some z)"
  by (simp add: last_vote_def split: option.splits)

lemma last_vote2:
  "last_vote [b, c] = (case c of None \<Rightarrow> b | Some z \<Rightarrow> Some z)"
  by (simp add: last_vote_def split: option.splits)

lemma generate_trading_signals_eval:
  assumes "latest data ''RSI'' = Inr r" "latest data ''MACD'' = Inr m"
    "latest data ''Signal_Line'' = Inr g" "latest data ''close'' = Inr c"
    "latest data ''BB_lower'' = Inr l" "latest data ''BB_upper'' = Inr u"
  shows "\<exists>s. generate_trading_signals data = Inr s
       \<and> action s = last_vote [rsi_vote r, macd_vote m g, bb_vote c l u]
       \<and> confidence s = weight (3 / 10) (rsi_vote r) + weight (3 / 10) (macd_vote m g)
                         + weight (2 / 10) (bb_vote c l u)
       \<and> length (reasons s) = fired_count [rsi_vote r, macd_vote m g, bb_vote c l u]"
proof -
  let ?s0 = "macd_analysis m g (rsi_analysis r init_signals)"
  obtain s where b: "bollinger_analysis data ?s0 = Inr s"
    using bollinger_analysis_total [OF assms(4-6)] by blast
  have gen: "generate_trading_signals data = Inr s"
    using b by (simp add: generate_trading_signals_def bind_def assms(1-3) init_signals_def)
  note B = bollinger_analysis_Inr [OF b, unfolded bb_vote_of_eq [OF assms(4-6)]]
  have "action s = last_vote [rsi_vote r, macd_vote m g, bb_vote c l u]"
    using B by (simp add: last_vote3 macd_analysis_action rsi_analysis_action init_signals_def
        split: option.splits)
  moreover have "confidence s = weight (3 / 10) (rsi_vote r) + weight (3 / 10) (macd_vote m g)
      + weight (2 / 10) (bb_vote c l u)"
    using B by (simp add: macd_analysis_confidence rsi_analysis_confidence init_signals_def)
  moreover have "length (reasons s) = fired_count [rsi_vote r, macd_vote m g, bb_vote c l u]"
    using B by (simp add: macd_analysis_length rsi_analysis_length init_signals_def
        fired_count_def)
  ultimately show ?thesis using gen by blast
qed

text \<open>
  Claim C3. When the latest row has RSI = 25, MACD above the signal line and the close
  below the lower Bollinger band, the engine returns BUY with confidence
  0.3 + 0.3 + 0.2 and the three reasons, in the order of the rules.
\<close>

theorem buy_on_three_rules:
  assumes "latest data ''RSI'' = Inr (Fin 25)"
    and "latest data ''MACD'' = Inr m" and "latest data ''Signal_Line'' = Inr g"
    and "fl_less g m"
    and "latest data ''close'' = Inr c" and "latest data ''BB_lower'' = Inr l"
    and "fl_less c l"
  shows "generate_trading_signals data =
     Inr \<lparr>action = Some BUY, confidence = 3 / 10 + 3 / 10 + 2 / 10,
          reasons = [''RSI oversold (25.00)'', ''MACD crossed above signal line'',
                     ''Price below lower Bollinger Band'']\<rparr>"
  using assms
  by (simp add: generate_trading_signals_def bollinger_analysis_def macd_analysis_def
      rsi_analysis_def bind_def TA_PARAMS_def format_2f_25)

theorem buy_on_three_rules_witness:
  "latest (tail_frame (Fin 25) (Fin 1) (Fin 0) 95 (Fin 96) (Fin 120)) ''RSI'' = Inr (Fin 25)
   \<and> fl_less (Fin 0) (Fin 1) \<and> fl_less (Fin 95) (Fin 96)
   \<and> generate_trading_signals (tail_frame (Fin 25) (Fin 1) (Fin 0) 95 (Fin 96) (Fin 120)) =
     Inr \<lparr>action = Some BUY, confidence = 8 / 10,
          reasons = [''RSI oversold (25.00)'', ''MACD crossed above signal line'',
                     ''Price below lower Bollinger Band'']\<rparr>"
  using buy_on_three_rules [of "tail_frame (Fin 25) (Fin 1) (Fin 0) 95 (Fin 96) (Fin 120)"
      "Fin 1" "Fin 0" "Fin 95" "Fin 96"]
  by (simp add: latest_tail_frame)

text \<open>
  Claim C4. The rule groups run in the order RSI, MACD, Bollinger: the action returned
  is that of the last group that fired, whatever the earlier groups said, and the
  confidence adds the weight of every group that fired.
\<close>

theorem last_rule_wins:
  assumes "latest data ''RSI'' = Inr r" "latest data ''MACD'' = Inr m"
    "latest data ''Signal_Line'' = Inr g" "latest data ''close'' = Inr c"
    "latest data ''BB_lower'' = Inr l" "latest data ''BB_upper'' = Inr u"
  shows "\<exists>s. generate_trading_signals data = Inr s
       \<and> action s = last_vote [rsi_vote r, macd_vote m g, bb_vote c l u]
       \<and> confidence s = weight (3 / 10) (rsi_vote r) + weight (3 / 10) (macd_vote m g)
                         + weight (2 / 10) (bb_vote c l u)"
  using generate_trading_signals_eval [OF assms] by blast

theorem last_rule_wins_witness:
  "latest (tail_frame (Fin 25) (Fin 1) (Fin 0) 95 (Fin 80) (Fin 94)) ''RSI'' = Inr (Fin 25)
   \<and> rsi_vote (Fin 25) = Some BUY \<and> macd_vote (Fin 1) (Fin 0) = Some BUY
   \<and> bb_vote (Fin 95) (Fin 80) (Fin 94) = Some SELL
   \<and> (\<exists>s. generate_trading_signals (tail_frame (Fin 25) (Fin 1) (Fin 0) 95 (Fin 80) (Fin 94))
            = Inr s \<and> action s = Some SELL \<and> confidence s = 8 / 10)"
  using last_rule_wins [of "tail_frame (Fin 25) (Fin 1) (Fin 0) 95 (Fin 80) (Fin 94)"
      "Fin 25" "Fin 1" "Fin 0" "Fin 95" "Fin 80" "Fin 94"]
  by (simp add: latest_tail_frame rsi_vote_def macd_vote_def bb_vote_def weight_def last_vote3)

text \<open>
  Claim C1, as stated, fails: with a NaN as the latest RSI the engine raises nothing and
  returns a signal built from the other rules.
\<close>

theorem undefined_rsi_not_rejected_counterexample:
  "latest (tail_frame NaN (Fin 1) (Fin 0) 95 (Fin 80) (Fin 120)) ''RSI'' = Inr NaN
   \<and> generate_trading_signals (tail_frame NaN (Fin 1) (Fin 0) 95 (Fin 80) (Fin 120)) =
     Inr \<lparr>action = Some BUY, confidence = 3 / 10,
          reasons = [''MACD crossed above signal line'']\<rparr>"
  by (simp add: latest_tail_frame generate_trading_signals_def bollinger_analysis_def
      macd_analysis_def rsi_analysis_def bind_def)

text \<open>
  Claim C1, amended. When the latest RSI is NaN (and the other five values can be
  read), the engine returns a signal: the RSI rule does not fire, and the action, the
  confidence and the reasons come from the MACD and Bollinger rules alone.
\<close>

theorem undefined_rsi_skips_rule:
  assumes "latest data ''RSI'' = Inr NaN" "latest data ''MACD'' = Inr m"
    "latest data ''Signal_Line'' = Inr g" "latest data ''close'' = Inr c"
    "latest data ''BB_lower'' = Inr l" "latest data ''BB_upper'' = Inr u"
  shows "\<exists>s. generate_trading_signals data = Inr s
       \<and> action s = last_vote [macd_vote m g, bb_vote c l u]
       \<and> confidence s = weight (3 / 10) (macd_vote m g) + weight (2 / 10) (bb_vote c l u)
       \<and> length (reasons s) = fired_count [macd_vote m g, bb_vote c l u]"
proof -
  have v: "rsi_vote NaN = None"
    by (simp add: rsi_vote_def)
  obtain s where s: "generate_trading_signals data = Inr s"
    and a: "action s = last_vote [rsi_vote NaN, macd_vote m g, bb_vote c l u]"
    and w: "confidence s = weight (3 / 10) (rsi_vote NaN) + weight (3 / 10) (macd_vote m g)
                         + weight (2 / 10) (bb_vote c l u)"
    and n: "length (reasons s) = fired_count [rsi_vote NaN, macd_vote m g, bb_vote c l u]"
    using generate_trading_signals_eval [OF assms] by blast
  have "action s = last_vote [macd_vote m g, bb_vote c l u]"
    using a by (simp add: v last_vote3 last_vote2 split: option.splits)
  moreover have "confidence s = weight (3 / 10) (macd_vote m g) + weight (2 / 10) (bb_vote c l u)"
    using w by (simp add: v weight_def)
  moreover have "length (reasons s) = fired_count [macd_vote m g, bb_vote c l u]"
    using n by (simp add: v fired_count_def)
  ultimately show ?thesis using s by blast
qed

theorem undefined_rsi_skips_rule_witness:
  "latest (tail_frame NaN (Fin 1) (Fin 0) 95 (Fin 80) (Fin 94)) ''RSI'' = Inr NaN
   \<and> (\<exists>s. generate_trading_signals (tail_frame NaN (Fin 1) (Fin 0) 95 (Fin 80) (Fin 94)) = Inr s
        \<and> action s = Some SELL \<and> confidence s = 5 / 10 \<and> length (reasons s) = 2)"
  using undefined_rsi_skips_rule [of "tail_frame NaN (Fin 1) (Fin 0) 95 (Fin 80) (Fin 94)"
      "Fin 1" "Fin 0" "Fin 95" "Fin 80" "Fin 94"]
  by (simp add: latest_tail_frame macd_vote_def bb_vote_def weight_def last_vote2
      fired_count_def numeral_2_eq_2)

section \<open>Columns, windows and cells\<close>

lemma length_rolling [simp]: "length (rolling w f xs) = length xs"
  by (simp add: rolling_def)

lemma nth_rolling:
  "t < length xs \<Longrightarrow>
   rolling w f xs ! t = (if w = 0 \<or> Suc t < w then NaN else f (window_at w t xs))"
  by (simp add: rolling_def)

lemma length_diff [simp]: "length (diff n xs) = length xs"
  by (simp add: diff_def)


lemma length_window_at:
  "w \<le> Suc t \<Longrightarrow> t < length xs \<Longrightarrow> length (window_at w t xs) = w"
  by (simp add: window_at_def)

lemma window_at_map: "window_at w t (map f xs) = map f (window_at w t xs)"
  by (simp add: window_at_def take_map drop_map)


lemma cell_setitem_same:
  "k \<notin> {''open'', ''high'', ''low'', ''close'', ''volume''} \<Longrightarrow>
   cell (setitem data k c) k t = (if t < length c then Some (c ! t) else None)"
  by (simp add: cell_def getitem_def setitem_def)

lemma cell_setitem_other:
  "k' \<noteq> k \<Longrightarrow> cell (setitem data k c) k' t = cell data k' t"
  by (simp add: cell_def getitem_def setitem_def)

lemma bars_setitem [simp]: "bars (setitem data k c) = bars data"
  by (simp add: setitem_def)

lemma fl_sum_Fin: "fl_sum (map Fin xs) = Fin (sum_list xs)"
  by (induction xs) (simp_all add: fl_sum_def)

lemma mean_fl_Fin:
  "xs \<noteq> [] \<Longrightarrow> mean_fl (map Fin xs) = Fin (sum_list xs / real (length xs))"
  by (simp add: mean_fl_def fl_sum_Fin)

lemma window_nonempty:
  "1 \<le> w \<Longrightarrow> w \<le> Suc t \<Longrightarrow> t < length xs \<Longrightarrow> window_at w t xs \<noteq> []"
  using length_window_at [of w t xs] by auto


lemma rolling_nth_late:
  "t < length xs \<Longrightarrow> 1 \<le> w \<Longrightarrow> w \<le> Suc t \<Longrightarrow> rolling w f xs ! t = f (window_at w t xs)"
  by (simp add: nth_rolling)

section \<open>Pivot points\<close>






section \<open>Momentum, support and resistance\<close>





lemma defined_or_undefined:
  "cell d k t = Some v \<Longrightarrow> (v \<noteq> NaN \<longleftrightarrow> c) \<Longrightarrow>
   (if c then defined_at d k t else undefined_at d k t)"
  by (auto simp: defined_at_def undefined_at_def is_defined_def)


section \<open>Bollinger bands and Fibonacci levels\<close>

lemma std_sample_cases:
  "std_sample ws = NaN \<and> length ws \<le> 1 \<or> (\<exists>s\<ge>0. std_sample ws = Fin s) \<and> 2 \<le> length ws"
proof (cases "length ws \<le> 1")
  case True
  then show ?thesis by (simp add: std_sample_def)
next
  case False
  have "0 \<le> sum_list (map (\<lambda>x. (x - sum_list ws / real (length ws))\<^sup>2) ws)"
    by (rule sum_list_nonneg) auto
  then have "0 \<le> sqrt (sum_list (map (\<lambda>x. (x - sum_list ws / real (length ws))\<^sup>2) ws)
      / real (length ws - 1))"
    by simp
  with False show ?thesis
    by (simp add: std_sample_def Let_def)
qed

lemma cell_bollinger_bands:
  assumes "t < length (bars data)"
  shows "cell (calculate_bollinger_bands data p k) ''BB_middle'' t
           = Some (rolling p mean_fl (map (\<lambda>b. Fin (close b)) (bars data)) ! t)"
    and "cell (calculate_bollinger_bands data p k) ''BB_upper'' t
           = Some (fl_add (rolling p mean_fl (map (\<lambda>b. Fin (close b)) (bars data)) ! t)
                     (fl_mult (rolling p std_sample (map close (bars data)) ! t) (Fin k)))"
    and "cell (calculate_bollinger_bands data p k) ''BB_lower'' t
           = Some (fl_sub (rolling p mean_fl (map (\<lambda>b. Fin (close b)) (bars data)) ! t)
                     (fl_mult (rolling p std_sample (map close (bars data)) ! t) (Fin k)))"
  using assms
  by (simp_all add: calculate_bollinger_bands_def Let_def cell_setitem_same cell_setitem_other)

lemma bb_middle_value:
  assumes "t < length (bars data)"
  shows "(if 1 \<le> p \<and> p \<le> Suc t
          then \<exists>m. rolling p mean_fl (map (\<lambda>b. Fin (close b)) (bars data)) ! t = Fin m
          else rolling p mean_fl (map (\<lambda>b. Fin (close b)) (bars data)) ! t = NaN)"
proof (cases "1 \<le> p \<and> p \<le> Suc t")
  case True
  let ?ws = "map close (window_at p t (bars data))"
  have ne: "?ws \<noteq> []"
    using True assms by (simp add: window_nonempty)
  have "rolling p mean_fl (map (\<lambda>b. Fin (close b)) (bars data)) ! t
      = mean_fl (window_at p t (map (\<lambda>b. Fin (close b)) (bars data)))"
    using True assms by (simp add: rolling_nth_late)
  also have "window_at p t (map (\<lambda>b. Fin (close b)) (bars data)) = map Fin ?ws"
    by (simp add: window_at_map)
  also have "mean_fl (map Fin ?ws) = Fin (sum_list ?ws / real (length ?ws))"
    using ne by (rule mean_fl_Fin)
  finally show ?thesis
    using True by simp
next
  case False
  then show ?thesis using assms by (auto simp: nth_rolling)
qed

lemma bb_std_value:
  assumes "t < length (bars data)"
  shows "(if 2 \<le> p \<and> p \<le> Suc t
          then \<exists>s\<ge>0. rolling p std_sample (map close (bars data)) ! t = Fin s
          else rolling p std_sample (map close (bars data)) ! t = NaN)"
proof (cases "1 \<le> p \<and> p \<le> Suc t")
  case True
  then have l: "length (window_at p t (map close (bars data))) = p"
    using assms by (simp add: length_window_at)
  show ?thesis
    using True assms l std_sample_cases [of "window_at p t (map close (bars data))"]
    by (auto simp: rolling_nth_late)
next
  case False
  then show ?thesis using assms by (auto simp: nth_rolling)
qed



lemma cell_bollinger_None:
  assumes "\<not> t < length (bars data)"
  shows "cell (calculate_bollinger_bands data p k) ''BB_middle'' t = None"
    and "cell (calculate_bollinger_bands data p k) ''BB_upper'' t = None"
    and "cell (calculate_bollinger_bands data p k) ''BB_lower'' t = None"
  using assms
  by (simp_all add: calculate_bollinger_bands_def Let_def cell_setitem_same cell_setitem_other)

lemma defined_at_cell: "defined_at d k t \<Longrightarrow> \<exists>v. cell d k t = Some v \<and> v \<noteq> NaN"
  by (auto simp: defined_at_def is_defined_def split: option.splits)

lemma bollinger_defined:
  assumes "t < length (bars data)" "1 \<le> p"
  shows "(if p - 1 \<le> t then defined_at (calculate_bollinger_bands data p k) ''BB_middle'' t
          else undefined_at (calculate_bollinger_bands data p k) ''BB_middle'' t)"
    and "2 \<le> p \<Longrightarrow>
         (if p - 1 \<le> t then defined_at (calculate_bollinger_bands data p k) ''BB_upper'' t
          else undefined_at (calculate_bollinger_bands data p k) ''BB_upper'' t)"
    and "2 \<le> p \<Longrightarrow>
         (if p - 1 \<le> t then defined_at (calculate_bollinger_bands data p k) ''BB_lower'' t
          else undefined_at (calculate_bollinger_bands data p k) ''BB_lower'' t)"
    and "p = 1 \<Longrightarrow> undefined_at (calculate_bollinger_bands data p k) ''BB_upper'' t
          \<and> undefined_at (calculate_bollinger_bands data p k) ''BB_lower'' t"
proof -
  note C = cell_bollinger_bands [OF assms(1), of p k]
  note M = bb_middle_value [OF assms(1), of p]
  note S = bb_std_value [OF assms(1), of p]
  have e: "p - 1 \<le> t \<longleftrightarrow> p \<le> Suc t"
    using assms(2) by arith
  show "(if p - 1 \<le> t then defined_at (calculate_bollinger_bands data p k) ''BB_middle'' t
          else undefined_at (calculate_bollinger_bands data p k) ''BB_middle'' t)"
    using M assms(2)
    by (intro defined_or_undefined [OF C(1)]) (auto simp: e split: if_splits)
  show "(if p - 1 \<le> t then defined_at (calculate_bollinger_bands data p k) ''BB_upper'' t
          else undefined_at (calculate_bollinger_bands data p k) ''BB_upper'' t)" if "2 \<le> p"
    using M S assms(2) that
    by (intro defined_or_undefined [OF C(2)]) (auto simp: e split: if_splits)
  show "(if p - 1 \<le> t then defined_at (calculate_bollinger_bands data p k) ''BB_lower'' t
          else undefined_at (calculate_bollinger_bands data p k) ''BB_lower'' t)" if "2 \<le> p"
    using M S assms(2) that
    by (intro defined_or_undefined [OF C(3)]) (auto simp: e fl_sub_def split: if_splits)
  show "undefined_at (calculate_bollinger_bands data p k) ''BB_upper'' t
          \<and> undefined_at (calculate_bollinger_bands data p k) ''BB_lower'' t" if "p = 1"
  proof -
    note p1 = that
    have sd: "rolling p std_sample (map close (bars data)) ! t = NaN"
      using S p1 by simp
    obtain m where "rolling p mean_fl (map (\<lambda>b. Fin (close b)) (bars data)) ! t = Fin m"
      using M p1 by auto
    then show ?thesis
      by (simp add: undefined_at_def C sd fl_sub_def)
  qed
qed

text \<open>
  Claim C7. At every position where the three Bollinger columns are defined, and for
  every non-negative multiplier, the lower band is at most the middle band and the
  middle band at most the upper band.
\<close>

theorem bollinger_bands_ordered:
  assumes "0 \<le> k"
    and "defined_at (calculate_bollinger_bands data p k) ''BB_upper'' t"
    and "defined_at (calculate_bollinger_bands data p k) ''BB_middle'' t"
    and "defined_at (calculate_bollinger_bands data p k) ''BB_lower'' t"
  shows "cell_le (calculate_bollinger_bands data p k) ''BB_lower'' ''BB_middle'' t
       \<and> cell_le (calculate_bollinger_bands data p k) ''BB_middle'' ''BB_upper'' t"
proof -
  let ?mid = "rolling p mean_fl (map (\<lambda>b. Fin (close b)) (bars data)) ! t"
  let ?sd = "rolling p std_sample (map close (bars data)) ! t"
  have t: "t < length (bars data)"
    using defined_at_cell [OF assms(3)] cell_bollinger_None(1) [of t data p k] by fastforce
  note C = cell_bollinger_bands [OF t, of p k]
  have up: "fl_add ?mid (fl_mult ?sd (Fin k)) \<noteq> NaN"
    using defined_at_cell [OF assms(2)] by (simp add: C)
  have "?mid \<noteq> NaN"
    using defined_at_cell [OF assms(3)] by (simp add: C)
  then obtain m where m: "?mid = Fin m"
    using bb_middle_value [OF t, of p] by (auto split: if_splits)
  have "?sd \<noteq> NaN"
    using up by (auto simp: m)
  then obtain s where s: "0 \<le> s" "?sd = Fin s"
    using bb_std_value [OF t, of p] by (auto split: if_splits)
  have "0 \<le> s * k"
    using s(1) assms(1) by simp
  then show ?thesis
    by (auto simp: cell_le_def C m s fl_le_def fl_sub_def)
qed

theorem bollinger_bands_ordered_witness:
  "(0::real) \<le> 2
   \<and> defined_at (calculate_bollinger_bands (hlc_frame [(0, 0, 0), (3, 3, 3), (6, 6, 6)]) 3 2)
        ''BB_upper'' 2
   \<and> cell (calculate_bollinger_bands (hlc_frame [(0, 0, 0), (3, 3, 3), (6, 6, 6)]) 3 2)
        ''BB_middle'' 2 = Some (Fin 3)
   \<and> defined_at (calculate_bollinger_bands (hlc_frame [(0, 0, 0), (3, 3, 3), (6, 6, 6)]) 3 2)
        ''BB_lower'' 2
   \<and> cell_le (calculate_bollinger_bands (hlc_frame [(0, 0, 0), (3, 3, 3), (6, 6, 6)]) 3 2)
        ''BB_lower'' ''BB_middle'' 2
   \<and> cell_le (calculate_bollinger_bands (hlc_frame [(0, 0, 0), (3, 3, 3), (6, 6, 6)]) 3 2)
        ''BB_middle'' ''BB_upper'' 2"
proof -
  let ?F = "hlc_frame [(0, 0, 0), (3, 3, 3), (6, 6, 6)]"
  have t: "2 < length (bars ?F)"
    by (simp add: hlc_frame_def new_frame_def)
  have u: "defined_at (calculate_bollinger_bands ?F 3 2) ''BB_upper'' 2"
    using bollinger_defined(2) [OF t, of 3 2] by simp
  have l: "defined_at (calculate_bollinger_bands ?F 3 2) ''BB_lower'' 2"
    using bollinger_defined(3) [OF t, of 3 2] by simp
  have "rolling 3 mean_fl (map (\<lambda>b. Fin (close b)) (bars ?F)) ! 2 = Fin 3"
    by code_simp
  then have c: "cell (calculate_bollinger_bands ?F 3 2) ''BB_middle'' 2 = Some (Fin 3)"
    by (simp add: cell_bollinger_bands(1) [OF t])
  then have m: "defined_at (calculate_bollinger_bands ?F 3 2) ''BB_middle'' 2"
    by (simp add: defined_at_def is_defined_def)
  have k: "(0::real) \<le> 2"
    by simp
  from bollinger_bands_ordered [OF k u m l] k u c l show ?thesis
    by blast
qed







section \<open>The relative strength index\<close>






lemma length_rsi_gain [simp]: "length (rsi_gain data p) = length (bars data)"
  by (simp add: rsi_gain_def where_fl_def)

lemma length_rsi_loss [simp]: "length (rsi_loss data p) = length (bars data)"
  by (simp add: rsi_loss_def where_fl_def)





lemma rsi_of_NaN [simp]: "rsi_of NaN l = NaN" "rsi_of g NaN = NaN"
  by (cases g; simp add: rsi_of_def fl_sub_def)+






section \<open>The analysis pipeline\<close>

lemma bars_calculate [simp]:
  "bars (calculate_rsi data p) = bars data"
  "bars (calculate_bollinger_bands data p k) = bars data"
  "bars (calculate_fibonacci_levels data p) = bars data"
  "bars (calculate_support_resistance data p) = bars data"
  "bars (calculate_momentum data p) = bars data"
  "bars (calculate_pivot_points data) = bars data"
  by (simp_all add: calculate_rsi_def calculate_bollinger_bands_def
      calculate_fibonacci_levels_def calculate_support_resistance_def calculate_momentum_def
      calculate_pivot_points_def Let_def)

lemma calculate_macd_defaults:
  "\<exists>d. calculate_macd data 12 26 9 = Inr d \<and> bars d = bars data"
  by (simp add: calculate_macd_def ewm_mean_def bind_def Let_def)

lemma calculate_all_indicators_ok:
  "\<exists>d. calculate_all_indicators data = Inr d \<and> bars d = bars data"
proof -
  obtain d where "calculate_macd (calculate_rsi data 14) 12 26 9 = Inr d"
    "bars d = bars data"
    using calculate_macd_defaults [of "calculate_rsi data 14"] by auto
  then show ?thesis
    by (simp add: calculate_all_indicators_def bind_def)
qed

text \<open>
  Claim C2. When the fetcher returns no bar, the pipeline reports the failure and
  returns \<open>None\<close> without building any indicator column; a frame with indicator
  columns is returned only for a non-empty series, and holds exactly the fetched bars.
\<close>

theorem empty_series_rejected:
  "(fetch_ohlcv symbol (default_timeframe TRADING_CONFIG) (default_limit TRADING_CONFIG) = []
      \<longrightarrow> fetch_and_analyze_data fetch_ohlcv symbol
            = ([''Failed to fetch data for '' @ symbol], Inr None))
   \<and> (fetch_ohlcv symbol (default_timeframe TRADING_CONFIG) (default_limit TRADING_CONFIG) \<noteq> []
      \<longrightarrow> (\<exists>d. fetch_and_analyze_data fetch_ohlcv symbol = ([], Inr (Some d))
               \<and> bars d = fetch_ohlcv symbol (default_timeframe TRADING_CONFIG)
                            (default_limit TRADING_CONFIG)))"
proof -
  let ?rows = "fetch_ohlcv symbol (default_timeframe TRADING_CONFIG) (default_limit TRADING_CONFIG)"
  obtain d where d: "calculate_all_indicators (new_frame ?rows) = Inr d"
    "bars d = bars (new_frame ?rows)"
    using calculate_all_indicators_ok by blast
  show ?thesis
    using d by (simp add: fetch_and_analyze_data_def Let_def empty_frame_def new_frame_def bind_def)
qed

theorem empty_series_rejected_witness:
  "(\<lambda>s tf n. []) ''BTC/USDT'' (default_timeframe TRADING_CONFIG) (default_limit TRADING_CONFIG)
     = ([] :: bar list)
   \<and> fetch_and_analyze_data (\<lambda>s tf n. []) ''BTC/USDT''
     = ([''Failed to fetch data for BTC/USDT''], Inr None)
   \<and> (\<lambda>s tf n. [\<lparr>timestamp = 0, open = 1, high = 2, low = 1, close = 2, volume = 10\<rparr>])
       ''BTC/USDT'' (default_timeframe TRADING_CONFIG) (default_limit TRADING_CONFIG) \<noteq> []
   \<and> (\<exists>d. fetch_and_analyze_data
            (\<lambda>s tf n. [\<lparr>timestamp = 0, open = 1, high = 2, low = 1, close = 2,
                          volume = 10\<rparr>]) ''BTC/USDT''
          = ([], Inr (Some d))
        \<and> bars d = [\<lparr>timestamp = 0, open = 1, high = 2, low = 1, close = 2,
                       volume = 10\<rparr>])"
  using empty_series_rejected [of "\<lambda>s tf n. []" "''BTC/USDT''"]
    empty_series_rejected
      [of "\<lambda>s tf n. [\<lparr>timestamp = 0, open = 1, high = 2, low = 1, close = 2,
                          volume = 10\<rparr>]" "''BTC/USDT''"]
  by simp

section \<open>The undefined prefix of the rolling indicators\<close>




end
